theory Spec2Isabelle
  imports Complex_Main "HOL-Library.Sublist"
begin

section \<open>Personal library manager: the store, persistence and queries of app.py\<close>

subsection \<open>Data model\<close>

text \<open>
  A book is the dictionary that \<open>add_book\<close> builds: six fixed keys. The key \<open>"id"\<close> is
  the field \<open>book_id\<close> here (\<open>id\<close> is HOL's identity function). Python integers are
  unbounded, so they are \<open>int\<close>.
\<close>

record book =
  book_id :: int
  title :: string
  author :: string
  publication_year :: int
  genre :: string
  read_status :: bool

text \<open>
  The application state: \<open>st.session_state.library\<close> and the files on disk, a map from
  file names to contents. The type \<open>'f\<close> of a file's content is what \<open>json.dump\<close>
  writes and \<open>json.load\<close> reads; both belong to Python's standard library, not to
  app.py, and are parameters of the functions that call them.
\<close>

record 'f app_state =
  library :: "book list"
  files :: "string \<rightharpoonup> 'f"

definition LIBRARY_FILE :: string where
  "LIBRARY_FILE = ''library.json''"

subsection \<open>Store operations\<close>

text \<open>
  \<open>save_library_to_file(filename=LIBRARY_FILE)\<close>: opens the file for writing, which
  replaces its content, and dumps the whole library.
\<close>

definition save_library_to_file ::
  "(book list \<Rightarrow> 'f) \<Rightarrow> string \<Rightarrow> 'f app_state \<Rightarrow> 'f app_state" where
  "save_library_to_file json_dump filename st =
     st\<lparr>files := (files st)(filename \<mapsto> json_dump (library st))\<rparr>"

text \<open>\<open>add_book\<close>: the id is the current length plus one; append, then save.\<close>

definition add_book ::
  "(book list \<Rightarrow> 'f) \<Rightarrow> string \<Rightarrow> string \<Rightarrow> int \<Rightarrow> string \<Rightarrow> bool \<Rightarrow>
   'f app_state \<Rightarrow> 'f app_state" where
  "add_book json_dump t a y g r st =
     (let new_id = int (length (library st)) + 1;
          st' = st\<lparr>library := library st @
                  [\<lparr>book_id = new_id, title = t, author = a, publication_year = y,
                    genre = g, read_status = r\<rparr>]\<rparr>
      in save_library_to_file json_dump LIBRARY_FILE st')"

text \<open>
  \<open>remove_book\<close>: the list comprehension keeps the books whose id differs from the
  argument; then save.
\<close>

definition remove_book :: "(book list \<Rightarrow> 'f) \<Rightarrow> int \<Rightarrow> 'f app_state \<Rightarrow> 'f app_state" where
  "remove_book json_dump i st =
     save_library_to_file json_dump LIBRARY_FILE
       (st\<lparr>library := [b \<leftarrow> library st. book_id b \<noteq> i]\<rparr>)"

text \<open>
  The block that runs at the start of every script run. \<open>session\<close> is the entry
  \<open>"library"\<close> of \<open>st.session_state\<close>, \<open>None\<close> when the key is absent (a new
  session). \<open>json.load\<close> either returns a value or raises; the block has no
  \<open>try\<close>, so the exception ends the run: the result \<open>Inl e\<close>. The notices are the
  calls of \<open>st.success\<close>.
\<close>

datatype notice = Success string

definition startup ::
  "('f \<Rightarrow> 'e + book list) \<Rightarrow> book list option \<Rightarrow> (string \<rightharpoonup> 'f) \<Rightarrow>
   'e + ('f app_state \<times> notice list)" where
  "startup json_load session fs =
     (case session of
        Some lib \<Rightarrow> Inr (\<lparr>library = lib, files = fs\<rparr>, [])
      | None \<Rightarrow>
          (case fs LIBRARY_FILE of
             Some content \<Rightarrow>
               (case json_load content of
                  Inl e \<Rightarrow> Inl e
                | Inr lib \<Rightarrow>
                    Inr (\<lparr>library = lib, files = fs\<rparr>,
                         [Success ''Library loaded from file successfully!'']))
           | None \<Rightarrow> Inr (\<lparr>library = [], files = fs\<rparr>, [])))"

subsection \<open>Query engine\<close>

text \<open>
  Strings are lists of 8-bit characters, read as ASCII text. \<open>lower\<close> is
  \<open>str.lower\<close> on ASCII: the letters A to Z move to a to z, every other character
  stays. \<open>str\<close> is the decimal string of an integer, with a minus sign for a
  negative one. Python's \<open>x in y\<close> on strings is \<^const>\<open>sublist\<close>: \<open>x\<close> occurs in
  \<open>y\<close> as a contiguous block.
\<close>

definition lower_char :: "char \<Rightarrow> char" where
  "lower_char c =
     (let n = (of_char c :: nat) in if 65 \<le> n \<and> n \<le> 90 then char_of (n + 32) else c)"

definition lower :: "string \<Rightarrow> string" where
  "lower s = map lower_char s"

fun digits :: "nat \<Rightarrow> string" where
  "digits n =
     (if n < 10 then [char_of (48 + n)] else digits (n div 10) @ [char_of (48 + n mod 10)])"

declare digits.simps [simp del]

definition str :: "int \<Rightarrow> string" where
  "str i = (if i < 0 then CHR ''-'' # digits (nat (- i)) else digits (nat i))"

definition search_books :: "book list \<Rightarrow> string \<Rightarrow> string \<Rightarrow> string \<Rightarrow> book list" where
  "search_books books search_term genre_filter read_status_filter =
     (let filtered = books;
          term = lower search_term;
          filtered =
            (if search_term \<noteq> [] then
               [book \<leftarrow> filtered.
                  sublist term (lower (title book)) \<or>
                  sublist term (lower (author book)) \<or>
                  sublist term (lower (genre book)) \<or>
                  sublist term (str (publication_year book))]
             else filtered);
          filtered =
            (if genre_filter \<noteq> ''All'' then
               [book \<leftarrow> filtered. lower (genre book) = lower genre_filter]
             else filtered);
          filtered =
            (if read_status_filter \<noteq> ''All'' then
               (let read_status_bool = (read_status_filter = ''Read'')
                in [book \<leftarrow> filtered. read_status book = read_status_bool])
             else filtered)
      in filtered)"

subsection \<open>Statistics\<close>

text \<open>
  \<open>get_statistics\<close> returns an \<open>int\<close> and either the \<open>int\<close> 0 or a \<open>float\<close>. A
  float is the rational number it stands for. \<open>float_round\<close> is rounding to the nearest
  number with a 53-bit significand, ties to the even significand, as IEEE 754 binary64
  arithmetic does; the exponent is not bounded here, and the quotients and products of
  \<open>get_statistics\<close> lie between 0 and 100. Python's \<open>a / b\<close> on two \<open>int\<close>s is the
  correctly rounded quotient, and \<open>x * 100\<close> converts 100 exactly and rounds the
  product.
\<close>

datatype number = PyInt int | PyFloat rat

function bit_length :: "int \<Rightarrow> int" where
  "bit_length n = (if n \<le> 0 then 0 else 1 + bit_length (n div 2))"
  by pat_completeness auto
termination
  by (relation "measure nat") auto

declare bit_length.simps [simp del]

definition round_half_even :: "rat \<Rightarrow> int" where
  "round_half_even x =
     (let f = \<lfloor>x\<rfloor>; d = x - of_int f
      in if d < 1 / 2 then f else if 1 / 2 < d then f + 1 else if even f then f else f + 1)"

definition float_round :: "rat \<Rightarrow> rat" where
  "float_round q =
     (if q = 0 then 0
      else
        let (a, b) = quotient_of \<bar>q\<bar>;
            d = bit_length a - bit_length b;
            e = (if 2 powi d \<le> \<bar>q\<bar> then d else d - 1);
            u = 2 powi (e - 52)
        in sgn q * of_int (round_half_even (\<bar>q\<bar> / u)) * u)"

definition truediv :: "int \<Rightarrow> int \<Rightarrow> rat" where
  "truediv a b = float_round (of_int a / of_int b)"

definition float_mul :: "rat \<Rightarrow> int \<Rightarrow> rat" where
  "float_mul x n = float_round (x * float_round (of_int n))"

definition get_statistics :: "'f app_state \<Rightarrow> int \<times> number" where
  "get_statistics st =
     (let total_books = int (length (library st));
          read_books = sum_list (map (\<lambda>book. 1) [book \<leftarrow> library st. read_status book]);
          percentage_read =
            (if total_books > 0 then PyFloat (float_mul (truediv read_books total_books) 100)
             else PyInt 0)
      in (total_books, percentage_read))"

subsection \<open>Menu actions that change the store\<close>

text \<open>
  The two menu branches that change the store: the form of "Add a Book" calls
  \<open>add_book\<close> with the form's fields, the button of "Remove a Book" calls
  \<open>remove_book\<close> with the chosen id. \<open>run\<close> performs a sequence of such actions,
  the first one first.
\<close>

datatype command = Add string string int string bool | Remove int

fun execute :: "(book list \<Rightarrow> 'f) \<Rightarrow> command \<Rightarrow> 'f app_state \<Rightarrow> 'f app_state" where
  "execute json_dump (Add t a y g r) st = add_book json_dump t a y g r st"
| "execute json_dump (Remove i) st = remove_book json_dump i st"

fun run :: "(book list \<Rightarrow> 'f) \<Rightarrow> command list \<Rightarrow> 'f app_state \<Rightarrow> 'f app_state" where
  "run json_dump [] st = st"
| "run json_dump (c # cs) st = run json_dump cs (execute json_dump c st)"

definition empty_store :: "'f app_state" where
  "empty_store = \<lparr>library = [], files = Map.empty\<rparr>"

subsection \<open>JSON text\<close>

text \<open>
  \<open>json.dump\<close> and \<open>json.load\<close> belong to Python's standard library. The store
  functions above take them as parameters; \<open>py_json_dump\<close> and \<open>py_json_load\<close> below
  model them on lists of books, so that what save writes and what startup reads can be
  compared. A file's content is then a \<open>string\<close>.
\<close>

definition dq :: char where "dq = CHR 0x22"
definition backslash :: char where "backslash = CHR 0x5C"
definition newline :: char where "newline = CHR 0x0A"


text \<open>
  The writer: \<open>json.dump(library, f, indent=4)\<close>. The library is a list of
  dictionaries whose values are integers, strings and booleans. With an indent the
  encoder writes every element and every member on a line of its own, indented by four
  spaces for each level, separates them by a comma at the end of the line and a key from
  its value by a colon and a space; the empty list is \<open>[]\<close> and the empty dictionary
  \<open>{}\<close>. Strings are written with \<open>ensure_ascii\<close>: the quote, the backslash and five
  control characters have two-character escapes, every other character outside the
  range from the space to the tilde is written \<open>\u00XX\<close> with lowercase hexadecimal
  digits. A book's keys appear in the order in which \<open>add_book\<close> inserts them.
\<close>

datatype jscalar = JInt int | JStr string | JBool bool

definition hex_digit :: "nat \<Rightarrow> char" where
  "hex_digit d = (if d < 10 then char_of (48 + d) else char_of (87 + d))"

definition escape_char :: "char \<Rightarrow> string" where
  "escape_char c =
     (let n = (of_char c :: nat) in
      if c = dq then [backslash, dq]
      else if c = backslash then [backslash, backslash]
      else if n = 10 then [backslash, CHR ''n'']
      else if n = 13 then [backslash, CHR ''r'']
      else if n = 9 then [backslash, CHR ''t'']
      else if n = 8 then [backslash, CHR ''b'']
      else if n = 12 then [backslash, CHR ''f'']
      else if n < 32 \<or> 126 < n then
        [backslash, CHR ''u'', CHR ''0'', CHR ''0'', hex_digit (n div 16), hex_digit (n mod 16)]
      else [c])"

definition encode_string :: "string \<Rightarrow> string" where
  "encode_string s = dq # concat (map escape_char s) @ [dq]"

definition dump_scalar :: "jscalar \<Rightarrow> string" where
  "dump_scalar v =
     (case v of JInt i \<Rightarrow> str i | JStr s \<Rightarrow> encode_string s
      | JBool b \<Rightarrow> (if b then ''true'' else ''false''))"

definition dump_member :: "string \<times> jscalar \<Rightarrow> string" where
  "dump_member m = encode_string (fst m) @ '': '' @ dump_scalar (snd m)"

fun dump_members :: "(string \<times> jscalar) list \<Rightarrow> string" where
  "dump_members [] = []"
| "dump_members [m] = replicate 8 CHR '' '' @ dump_member m"
| "dump_members (m # ms) =
     replicate 8 CHR '' '' @ dump_member m @ '','' @ [newline] @ dump_members ms"

definition dump_object :: "(string \<times> jscalar) list \<Rightarrow> string" where
  "dump_object ms =
     (if ms = [] then ''{}''
      else ''{'' @ [newline] @ dump_members ms @ [newline] @ replicate 4 CHR '' '' @ ''}'')"

fun dump_objects :: "(string \<times> jscalar) list list \<Rightarrow> string" where
  "dump_objects [] = []"
| "dump_objects [ob] = replicate 4 CHR '' '' @ dump_object ob"
| "dump_objects (ob # obs) =
     replicate 4 CHR '' '' @ dump_object ob @ '','' @ [newline] @ dump_objects obs"

definition dump_array :: "(string \<times> jscalar) list list \<Rightarrow> string" where
  "dump_array obs =
     (if obs = [] then ''[]'' else ''['' @ [newline] @ dump_objects obs @ [newline] @ '']'')"

definition object_of_book :: "book \<Rightarrow> (string \<times> jscalar) list" where
  "object_of_book b =
     [(''id'', JInt (book_id b)), (''title'', JStr (title b)), (''author'', JStr (author b)),
      (''publication_year'', JInt (publication_year b)), (''genre'', JStr (genre b)),
      (''read_status'', JBool (read_status b))]"

definition py_json_dump :: "book list \<Rightarrow> string" where
  "py_json_dump bs = dump_array (map object_of_book bs)"


text \<open>
  The reader: \<open>json.load\<close> on texts that stand for a list of books. It skips JSON's
  white space wherever JSON allows it, takes the members of an object in any order (the
  last of two equal keys wins, as in a Python dictionary), reads every escape of a JSON
  string, refuses a raw control character in a string, a number with a leading zero or a
  sign other than the minus, and any text after the closing bracket. The store is typed:
  a text that is JSON but does not stand for a list of books (a number with a fraction
  or an exponent, \<open>null\<close>, a nested value, a code point above 255, a dictionary
  with other keys) has no library in this model, and the reader rejects it together with
  malformed text. The readers of members and objects count down a number that starts at
  the length of the text, which none of them can use up.
\<close>

datatype json_error = JSONDecodeError






















subsection \<open>The specification's wording\<close>

text \<open>
  Specification, 4.1: "removes the first record whose id matches; if no match, contents
  are unchanged".
\<close>

fun remove_first_match :: "int \<Rightarrow> book list \<Rightarrow> book list" where
  "remove_first_match i [] = []"
| "remove_first_match i (b # bs) =
     (if book_id b = i then bs else b # remove_first_match i bs)"

text \<open>
  Specification, 4.3: the three criteria of a search, each one applying only when its
  argument asks for it, joined by "and"; the fields of the first criterion joined by
  "or". Two strings are equal case-insensitively when their lowercased forms are equal.
\<close>

definition matches :: "string \<Rightarrow> string \<Rightarrow> string \<Rightarrow> book \<Rightarrow> bool" where
  "matches search_term genre_filter read_status_filter b \<longleftrightarrow>
     (search_term \<noteq> [] \<longrightarrow>
        sublist (lower search_term) (lower (title b)) \<or>
        sublist (lower search_term) (lower (author b)) \<or>
        sublist (lower search_term) (lower (genre b)) \<or>
        sublist (lower search_term) (str (publication_year b))) \<and>
     (genre_filter \<noteq> ''All'' \<longrightarrow> lower (genre b) = lower genre_filter) \<and>
     (read_status_filter \<noteq> ''All'' \<longrightarrow>
        read_status b = (read_status_filter = ''Read''))"

subsection \<open>Sample data\<close>

definition three_books :: "book list" where
  "three_books =
     [\<lparr>book_id = 1, title = ''Emma'', author = ''Jane Austen'', publication_year = 1815,
       genre = ''Novel'', read_status = True\<rparr>,
      \<lparr>book_id = 2, title = ''Dune'', author = ''Frank Herbert'', publication_year = 1965,
       genre = ''SciFi'', read_status = False\<rparr>,
      \<lparr>book_id = 3, title = ''Ulysses'', author = ''James Joyce'', publication_year = 1922,
       genre = ''Novel'', read_status = False\<rparr>]"

definition duplicate_ids :: "book list" where
  "duplicate_ids =
     [\<lparr>book_id = 1, title = ''Emma'', author = ''Jane Austen'', publication_year = 1815,
       genre = ''Novel'', read_status = True\<rparr>,
      \<lparr>book_id = 3, title = ''Ulysses'', author = ''James Joyce'', publication_year = 1922,
       genre = ''Novel'', read_status = False\<rparr>,
      \<lparr>book_id = 3, title = ''Hamlet'', author = ''William Shakespeare'',
       publication_year = 1603, genre = ''Drama'', read_status = True\<rparr>]"

definition four_books :: "book list" where
  "four_books =
     three_books @
     [\<lparr>book_id = 4, title = ''Hamlet'', author = ''William Shakespeare'',
       publication_year = 1603, genre = ''Drama'', read_status = False\<rparr>]"

text \<open>The example of the specification, 9: add three books, remove id 2, add one more.\<close>

definition add3_remove2_add :: "command list" where
  "add3_remove2_add =
     [Add ''Emma'' ''Jane Austen'' 1815 ''Novel'' True,
      Add ''Dune'' ''Frank Herbert'' 1965 ''SciFi'' False,
      Add ''Ulysses'' ''James Joyce'' 1922 ''Novel'' False,
      Remove 2,
      Add ''Hamlet'' ''William Shakespeare'' 1603 ''Drama'' True]"

text \<open>
  A reader of files for the examples: it accepts the text \<open>[]\<close> as the empty list and
  rejects every other text.
\<close>

definition only_empty_array :: "string \<Rightarrow> json_error + book list" where
  "only_empty_array content = (if content = ''[]'' then Inr [] else Inl JSONDecodeError)"

section \<open>Properties\<close>

subsection \<open>What the store operations leave in the library and on disk\<close>

lemma library_add_book:
  "library (add_book json_dump t a y g r st) =
     library st @ [\<lparr>book_id = int (length (library st)) + 1, title = t, author = a,
                    publication_year = y, genre = g, read_status = r\<rparr>]"
  by (simp add: add_book_def save_library_to_file_def Let_def)

lemma library_remove_book:
  "library (remove_book json_dump i st) = [b \<leftarrow> library st. book_id b \<noteq> i]"
  by (simp add: remove_book_def save_library_to_file_def)

lemma files_remove_book:
  "files (remove_book json_dump i st) =
     (files st)(LIBRARY_FILE \<mapsto> json_dump [b \<leftarrow> library st. book_id b \<noteq> i])"
  by (simp add: remove_book_def save_library_to_file_def)

lemma filter_single_split:
  assumes "length (filter P xs) = 1"
  shows "\<exists>us b vs. xs = us @ b # vs \<and> P b \<and> (\<forall>u \<in> set us. \<not> P u) \<and> (\<forall>v \<in> set vs. \<not> P v)"
proof -
  from assms obtain b where "filter P xs = [b]"
    by (cases "filter P xs") auto
  then obtain us vs where "xs = us @ b # vs" "\<forall>u \<in> set us. \<not> P u" "P b" "[] = filter P vs"
    unfolding filter_eq_Cons_iff by blast
  moreover from this have "\<forall>v \<in> set vs. \<not> P v"
    by (metis filter_empty_conv)
  ultimately show ?thesis by blast
qed

lemma remove_first_match_split:
  "\<forall>u \<in> set us. book_id u \<noteq> i \<Longrightarrow> book_id b = i \<Longrightarrow>
   remove_first_match i (us @ b # vs) = us @ vs"
  by (induction us) auto

subsection \<open>Removing a book\<close>

text \<open>
  Claim C1. In a store where exactly one record has id \<open>i\<close>, \<open>remove_book i\<close> removes
  the first record whose id matches: the library splits around that record \<open>b\<close>, no
  record before it has id \<open>i\<close>, the result is what stood before \<open>b\<close> followed by what
  stood after it (every other record unchanged, in the same order), the result is what
  removing the first match gives, it is one record shorter, and \<open>b\<close> is no longer in it.
\<close>

theorem remove_book_unique_id:
  assumes "length [b \<leftarrow> library st. book_id b = i] = 1"
  shows "\<exists>us b vs. library st = us @ b # vs \<and> book_id b = i
            \<and> (\<forall>u \<in> set us. book_id u \<noteq> i)
            \<and> library (remove_book json_dump i st) = us @ vs
            \<and> library (remove_book json_dump i st) = remove_first_match i (library st)
            \<and> Suc (length (library (remove_book json_dump i st))) = length (library st)
            \<and> b \<notin> set (library (remove_book json_dump i st))"
proof -
  from filter_single_split [OF assms] obtain us b vs where
    split: "library st = us @ b # vs" and b: "book_id b = i"
    and us: "\<forall>u \<in> set us. book_id u \<noteq> i" and vs: "\<forall>v \<in> set vs. book_id v \<noteq> i"
    by blast
  have res: "library (remove_book json_dump i st) = us @ vs"
    using split b us vs by (simp add: library_remove_book)
  have "remove_first_match i (library st) = us @ vs"
    using split b us by (simp add: remove_first_match_split)
  moreover have "b \<notin> set (us @ vs)"
    using b us vs by auto
  ultimately show ?thesis
    using split b us res by auto
qed

theorem remove_book_unique_id_witness:
  "length [b \<leftarrow> three_books. book_id b = 2] = 1
   \<and> library (remove_book (\<lambda>bs. bs) 2 \<lparr>library = three_books, files = Map.empty\<rparr>)
       = [three_books ! 0, three_books ! 2]
   \<and> (\<exists>us b vs. three_books = us @ b # vs \<and> book_id b = 2
         \<and> (\<forall>u \<in> set us. book_id u \<noteq> 2)
         \<and> [three_books ! 0, three_books ! 2] = us @ vs
         \<and> [three_books ! 0, three_books ! 2] = remove_first_match 2 three_books
         \<and> b \<notin> set [three_books ! 0, three_books ! 2])"
proof -
  have h: "length [b \<leftarrow> library \<lparr>library = three_books, files = Map.empty\<rparr>. book_id b = 2] = 1"
    by (simp add: three_books_def)
  have r: "library (remove_book (\<lambda>bs. bs) 2 \<lparr>library = three_books, files = Map.empty\<rparr>)
       = [three_books ! 0, three_books ! 2]"
    by (simp add: library_remove_book three_books_def)
  show ?thesis
    using h r remove_book_unique_id [OF h, of "\<lambda>bs. bs"] by simp blast
qed

text \<open>
  Claim C10. For every store and every id \<open>i\<close>, also when several records share it,
  \<open>remove_book i\<close> leaves no record with id \<open>i\<close>; the result is a subsequence of the
  library (the survivors keep their relative order); every record with another id
  occurs in the result as often as before; and the file holds the dump of the result.
\<close>

theorem remove_book_removes_every_match:
  "(\<forall>b \<in> set (library (remove_book json_dump i st)). book_id b \<noteq> i)
   \<and> subseq (library (remove_book json_dump i st)) (library st)
   \<and> (\<forall>b. book_id b \<noteq> i \<longrightarrow>
          count_list (library (remove_book json_dump i st)) b = count_list (library st) b)
   \<and> files (remove_book json_dump i st) LIBRARY_FILE
       = Some (json_dump (library (remove_book json_dump i st)))"
proof -
  have "count_list (filter P xs) b = count_list xs b" if "P b" for P and xs :: "book list" and b
    using that by (induction xs) auto
  then show ?thesis
    by (simp add: library_remove_book files_remove_book)
qed

theorem remove_book_removes_every_match_witness:
  "library (remove_book (\<lambda>bs. bs) 3 \<lparr>library = duplicate_ids, files = Map.empty\<rparr>)
     = [duplicate_ids ! 0]
   \<and> 3 \<notin> book_id ` set [duplicate_ids ! 0]
   \<and> subseq [duplicate_ids ! 0] duplicate_ids
   \<and> book_id (duplicate_ids ! 0) \<noteq> 3
   \<and> count_list [duplicate_ids ! 0] (duplicate_ids ! 0)
       = count_list duplicate_ids (duplicate_ids ! 0)"
proof -
  have r: "library (remove_book (\<lambda>bs. bs) 3 \<lparr>library = duplicate_ids, files = Map.empty\<rparr>)
     = [duplicate_ids ! 0]"
    by (simp add: library_remove_book duplicate_ids_def)
  have h: "book_id (duplicate_ids ! 0) \<noteq> 3"
    by (simp add: duplicate_ids_def)
  have c: "count_list duplicate_ids (duplicate_ids ! 0) = 1"
    by (simp add: duplicate_ids_def)
  show ?thesis
    using r h c remove_book_removes_every_match
      [of "\<lambda>bs. bs" 3 "\<lparr>library = duplicate_ids, files = Map.empty\<rparr>"]
    by simp
qed

text \<open>
  Claim C8. When no record of the store has id \<open>i\<close>, \<open>remove_book i\<close> leaves the
  library as it is and still saves: afterwards the backing file holds the dump of the
  whole library, and the other files are untouched. \<open>remove_book\<close> has no failing
  branch: it returns a state for every argument.
\<close>

theorem remove_book_absent_id:
  assumes "\<forall>b \<in> set (library st). book_id b \<noteq> i"
  shows "library (remove_book json_dump i st) = library st
         \<and> files (remove_book json_dump i st)
             = (files st)(LIBRARY_FILE \<mapsto> json_dump (library st))"
  using assms by (simp add: library_remove_book files_remove_book)

theorem remove_book_absent_id_witness:
  "7 \<notin> book_id ` set three_books
   \<and> library (remove_book (\<lambda>bs. bs) 7 \<lparr>library = three_books, files = Map.empty\<rparr>)
       = three_books
   \<and> files (remove_book (\<lambda>bs. bs) 7 \<lparr>library = three_books, files = Map.empty\<rparr>)
       = [LIBRARY_FILE \<mapsto> three_books]"
proof -
  have h: "\<forall>b \<in> set (library \<lparr>library = three_books, files = Map.empty\<rparr>). book_id b \<noteq> 7"
    by (simp add: three_books_def)
  show ?thesis
    using h remove_book_absent_id [OF h, of "\<lambda>bs. bs"] by auto
qed

subsection \<open>Ids\<close>

lemma run_add3_remove2_add:
  "library (run json_dump add3_remove2_add empty_store) = duplicate_ids"
  by (simp add: add3_remove2_add_def empty_store_def duplicate_ids_def
      library_add_book library_remove_book)

text \<open>
  Claim C3. Distinct ids are not an invariant of the store. \<open>add_book\<close> gives the new
  record the id "length of the library plus one"; adding three books, removing id 2 and
  adding one more leaves the ids 1, 3, 3; so some sequence of additions and removals
  from the empty store ends with two different records that have the same id.
\<close>

theorem id_uniqueness_not_invariant:
  "(\<forall>t a y g r st. book_id (last (library (add_book json_dump t a y g r st)))
        = int (length (library st)) + 1)
   \<and> map book_id (library (run json_dump add3_remove2_add empty_store)) = [1, 3, 3]
   \<and> (\<exists>cmds m n. m < n \<and> n < length (library (run json_dump cmds empty_store))
         \<and> library (run json_dump cmds empty_store) ! m
             \<noteq> library (run json_dump cmds empty_store) ! n
         \<and> book_id (library (run json_dump cmds empty_store) ! m)
             = book_id (library (run json_dump cmds empty_store) ! n))"
proof -
  have "\<exists>m n. m < n \<and> n < length duplicate_ids \<and> duplicate_ids ! m \<noteq> duplicate_ids ! n
          \<and> book_id (duplicate_ids ! m) = book_id (duplicate_ids ! n)"
    by (rule exI [of _ 1], rule exI [of _ 2]) (simp add: duplicate_ids_def)
  then have "\<exists>cmds m n. m < n \<and> n < length (library (run json_dump cmds empty_store))
         \<and> library (run json_dump cmds empty_store) ! m
             \<noteq> library (run json_dump cmds empty_store) ! n
         \<and> book_id (library (run json_dump cmds empty_store) ! m)
             = book_id (library (run json_dump cmds empty_store) ! n)"
    by (metis run_add3_remove2_add)
  moreover have "map book_id (library (run json_dump add3_remove2_add empty_store)) = [1, 3, 3]"
    by (simp add: run_add3_remove2_add duplicate_ids_def)
  ultimately show ?thesis
    by (simp add: library_add_book)
qed

subsection \<open>Search\<close>

text \<open>
  Claim C7. With the empty search term and both filters set to \<open>All\<close>, the search
  returns the list it was given, unchanged and in the same order.
\<close>

theorem search_books_identity: "search_books books [] ''All'' ''All'' = books"
  by (simp add: search_books_def)

text \<open>
  Claim C4. For every list of records, search term and pair of filters, the search
  returns exactly the records that satisfy the three criteria together, in the order of
  the list: the three passes of \<open>search_books\<close> are one pass with \<open>matches\<close>.
\<close>

theorem search_books_matches:
  "search_books books search_term genre_filter read_status_filter
     = filter (matches search_term genre_filter read_status_filter) books"
proof -
  have "filter (matches search_term genre_filter read_status_filter) books
        = filter (\<lambda>b. read_status_filter \<noteq> ''All'' \<longrightarrow>
                         read_status b = (read_status_filter = ''Read''))
           (filter (\<lambda>b. genre_filter \<noteq> ''All'' \<longrightarrow> lower (genre b) = lower genre_filter)
             (filter (\<lambda>b. search_term \<noteq> [] \<longrightarrow>
                 sublist (lower search_term) (lower (title b)) \<or>
                 sublist (lower search_term) (lower (author b)) \<or>
                 sublist (lower search_term) (lower (genre b)) \<or>
                 sublist (lower search_term) (str (publication_year b))) books))"
    unfolding filter_filter matches_def by (rule filter_cong) auto
  also have "\<dots> = search_books books search_term genre_filter read_status_filter"
    by (simp add: search_books_def Let_def)
  finally show ?thesis by simp
qed

theorem search_books_matches_witness:
  "''JOYCE'' \<noteq> [] \<and> ''novel'' \<noteq> ''All'' \<and> ''Unread'' \<noteq> ''All''
   \<and> search_books three_books ''JOYCE'' ''novel'' ''Unread'' = [three_books ! 2]
   \<and> filter (matches ''JOYCE'' ''novel'' ''Unread'') three_books = [three_books ! 2]
   \<and> search_books three_books ''19'' ''All'' ''Unread'' = [three_books ! 1, three_books ! 2]
   \<and> filter (matches ''19'' ''All'' ''Unread'') three_books = [three_books ! 1, three_books ! 2]"
proof -
  have a: "search_books three_books ''JOYCE'' ''novel'' ''Unread'' = [three_books ! 2]"
    by code_simp
  have b: "search_books three_books ''19'' ''All'' ''Unread''
             = [three_books ! 1, three_books ! 2]"
    by code_simp
  show ?thesis
    using a b search_books_matches [of three_books "''JOYCE''" "''novel''" "''Unread''"]
      search_books_matches [of three_books "''19''" "''All''" "''Unread''"]
    by simp
qed

subsection \<open>Statistics\<close>

lemma sum_list_ones: "sum_list (map (\<lambda>book. 1) xs) = int (length xs)"
  by (induction xs) auto

lemma quarter_percent: "float_mul (truediv 1 4) 100 = 25"
  by code_simp

text \<open>
  Claim C6. \<open>get_statistics\<close> returns the number of books and the percentage read: for
  the empty library the pair of the integers 0 and 0, the division being guarded;
  otherwise the float that Python computes for "read count / total count * 100". A
  library of four books of which exactly one is read gives 4 and the float 25.
\<close>

theorem get_statistics_percent:
  "(library st = [] \<longrightarrow> get_statistics st = (0, PyInt 0))
   \<and> (library st \<noteq> [] \<longrightarrow>
        get_statistics st =
          (int (length (library st)),
           PyFloat (float_mul
             (truediv (int (length [b \<leftarrow> library st. read_status b]))
                (int (length (library st))))
             100)))
   \<and> (length (library st) = 4 \<and> length [b \<leftarrow> library st. read_status b] = 1 \<longrightarrow>
        get_statistics st = (4, PyFloat 25))"
  by (simp add: get_statistics_def Let_def sum_list_ones quarter_percent)

theorem get_statistics_percent_witness:
  "library (empty_store :: string app_state) = []
   \<and> get_statistics (empty_store :: string app_state) = (0, PyInt 0)
   \<and> library \<lparr>library = four_books, files = Map.empty :: string \<rightharpoonup> string\<rparr> \<noteq> []
   \<and> length four_books = 4 \<and> length [b \<leftarrow> four_books. read_status b] = 1
   \<and> get_statistics \<lparr>library = four_books, files = Map.empty :: string \<rightharpoonup> string\<rparr>
       = (4, PyFloat 25)"
proof -
  have e: "library (empty_store :: string app_state) = []"
    by (simp add: empty_store_def)
  have f: "length four_books = 4 \<and> length [b \<leftarrow> four_books. read_status b] = 1"
    by (simp add: four_books_def three_books_def)
  show ?thesis
    using e f get_statistics_percent [of "empty_store :: string app_state"]
      get_statistics_percent
        [of "\<lparr>library = four_books, files = Map.empty :: string \<rightharpoonup> string\<rparr>"]
    by auto
qed

subsection \<open>Persistence\<close>







































lemma py_json_dump_empty: "py_json_dump [] = ''[]''"
  by (simp add: py_json_dump_def dump_array_def)

text \<open>
  The text that the writer produces for a library of one book, line by line.
\<close>

lemma py_json_dump_one_book:
  "py_json_dump
     [\<lparr>book_id = 2, title = ''Dune'', author = ''Frank Herbert'', publication_year = 1965,
       genre = ''SciFi'', read_status = False\<rparr>] =
     ''['' @ [newline] @
     ''    {'' @ [newline] @
     ''        '' @ [dq] @ ''id'' @ [dq] @ '': 2,'' @ [newline] @
     ''        '' @ [dq] @ ''title'' @ [dq] @ '': '' @ [dq] @ ''Dune'' @ [dq] @ '','' @ [newline] @
     ''        '' @ [dq] @ ''author'' @ [dq] @ '': '' @ [dq] @ ''Frank Herbert'' @ [dq] @ '','' @
       [newline] @
     ''        '' @ [dq] @ ''publication_year'' @ [dq] @ '': 1965,'' @ [newline] @
     ''        '' @ [dq] @ ''genre'' @ [dq] @ '': '' @ [dq] @ ''SciFi'' @ [dq] @ '','' @ [newline] @
     ''        '' @ [dq] @ ''read_status'' @ [dq] @ '': false'' @ [newline] @
     ''    }'' @ [newline] @
     '']''"
  by code_simp



text \<open>
  Claim C9. In a new session, when the backing file is absent the library starts empty,
  with no error and no notice; when the file is present and \<open>json.load\<close> raises, the
  error ends the run; when \<open>json.load\<close> returns a value, that value becomes the
  library as it is, with no check of its contents.
\<close>

theorem startup_load:
  "(fs LIBRARY_FILE = None \<longrightarrow>
      startup json_load None fs = Inr (\<lparr>library = [], files = fs\<rparr>, []))
   \<and> (fs LIBRARY_FILE = Some content \<and> json_load content = Inl e \<longrightarrow>
      startup json_load None fs = Inl e)
   \<and> (fs LIBRARY_FILE = Some content \<and> json_load content = Inr v \<longrightarrow>
      startup json_load None fs =
        Inr (\<lparr>library = v, files = fs\<rparr>, [Success ''Library loaded from file successfully!'']))"
  by (simp add: startup_def)

theorem startup_load_witness:
  "Map.empty LIBRARY_FILE = (None :: string option)
   \<and> startup only_empty_array None Map.empty = Inr (\<lparr>library = [], files = Map.empty\<rparr>, [])
   \<and> [LIBRARY_FILE \<mapsto> ''{''] LIBRARY_FILE = Some ''{''
   \<and> only_empty_array ''{'' = Inl JSONDecodeError
   \<and> startup only_empty_array None [LIBRARY_FILE \<mapsto> ''{''] = Inl JSONDecodeError
   \<and> [LIBRARY_FILE \<mapsto> ''[]''] LIBRARY_FILE = Some ''[]''
   \<and> only_empty_array ''[]'' = Inr []
   \<and> startup only_empty_array None [LIBRARY_FILE \<mapsto> ''[]'']
       = Inr (\<lparr>library = [], files = [LIBRARY_FILE \<mapsto> ''[]'']\<rparr>,
              [Success ''Library loaded from file successfully!''])"
proof -
  have a: "only_empty_array ''{'' = Inl JSONDecodeError"
    and b: "only_empty_array ''[]'' = Inr []"
    by (simp_all add: only_empty_array_def)
  show ?thesis
    using a b
      startup_load [where fs = Map.empty and json_load = only_empty_array]
      startup_load [where fs = "[LIBRARY_FILE \<mapsto> ''{'']" and json_load = only_empty_array
        and content = "''{''" and e = JSONDecodeError]
      startup_load [where fs = "[LIBRARY_FILE \<mapsto> ''[]'']" and json_load = only_empty_array
        and content = "''[]''" and v = "[]"]
    by simp
qed

end
